theory Spec2Isabelle
  imports Main
begin

section \<open>The upload handler of \<open>app/publish/publish.go\<close>\<close>

text \<open>
  The package saves a multipart upload to a scratch file, splices the file's path into
  the accompanying JSON-RPC request and forwards it to the SDK. The Go code works on
  the file system, the HTTP request and the collaborators of other packages. Here the
  file system is an explicit state (\<open>world\<close>), the functions of this file return Go's
  pair of a result and an error (\<open>None\<close> is \<open>nil\<close>), and what the code cannot decide
  by itself (faults of the operating system, the random source, the functions of the
  packages \<open>auth\<close>, \<open>proxy\<close>, \<open>query\<close>, \<open>cache\<close>, \<open>responses\<close> and
  \<open>encoding/json\<close>) is a field of the record \<open>env\<close>.
\<close>

subsection \<open>Errors, files and the file system\<close>

datatype error =
    ErrMissingFile
  | ErrNotMultipart
  | ErrExist
  | ErrNotExist
  | ErrInvalid
  | ErrPatternHasSeparator
  | ErrMsg string

text \<open>A \<open>*os.File\<close>: the handler only ever reads its name.\<close>

datatype os_file = File (Name: string)

record world =
  files :: "string \<rightharpoonup> string"
  dirs :: "string set"
  seed :: nat

subsection \<open>The request, as \<open>net/http\<close> presents it\<close>

text \<open>
  A \<open>multipart.FileHeader\<close> with the bytes of its part; \<open>open_err\<close> is the error
  of \<open>FileHeader.Open\<close>, if any.
\<close>

record file_header =
  Filename :: string
  content :: string
  open_err :: "string option"

text \<open>
  What \<open>Request.ParseMultipartForm\<close> leaves behind: an error for a body that is not
  \<open>multipart/form-data\<close> or that does not parse, or the file parts by field name.
\<close>

datatype multipart_form =
    NotMultipart
  | Malformed string
  | Multipart "string \<Rightarrow> file_header list"

record request =
  MultipartForm :: multipart_form
  Form :: "string \<Rightarrow> string list"
  credentials :: string

text \<open>
  \<open>Request.FormFile\<close>: the error of the form parser if the form did not parse, the
  first file part under the key (its bytes and its header) if there is one and it
  opens, \<open>http.ErrMissingFile\<close> if there is none. Go returns the file, the header and
  the error; the file and the header are \<open>nil\<close> exactly when the error is not, so the
  result is a sum.
\<close>

definition FormFile :: "request \<Rightarrow> string \<Rightarrow> error + (string \<times> file_header)" where
  "FormFile r key =
     (case MultipartForm r of
        NotMultipart \<Rightarrow> Inl ErrNotMultipart
      | Malformed m \<Rightarrow> Inl (ErrMsg m)
      | Multipart fs \<Rightarrow>
          (case fs key of
             [] \<Rightarrow> Inl ErrMissingFile
           | fh # _ \<Rightarrow>
               (case open_err fh of
                  None \<Rightarrow> Inr (content fh, fh)
                | Some m \<Rightarrow> Inl (ErrMsg m))))"

text \<open>\<open>Request.FormValue\<close>: the first value under the key, or the empty string.\<close>

definition FormValue :: "request \<Rightarrow> string \<Rightarrow> string" where
  "FormValue r key = (case Form r key of [] \<Rightarrow> [] | v # _ \<Rightarrow> v)"

text \<open>A file part is present under a field name: the form parsed and holds one.\<close>

definition has_file_part :: "request \<Rightarrow> string \<Rightarrow> bool" where
  "has_file_part r key =
     (case MultipartForm r of Multipart fs \<Rightarrow> fs key \<noteq> [] | _ \<Rightarrow> False)"

text \<open>The multipart form of the request parsed.\<close>

definition form_parsed :: "request \<Rightarrow> bool" where
  "form_parsed r = (case MultipartForm r of Multipart fs \<Rightarrow> True | _ \<Rightarrow> False)"

subsection \<open>Collaborators\<close>

record user =
  ID :: int

datatype json = JNull | JBool bool | JNum int | JStr string | JArr "json list" | JObj "(string \<times> json) list"

text \<open>
  \<open>RPCRequest.Params\<close> is an \<open>interface{}\<close>: absent, a \<open>map[string]interface{}\<close>
  or any other value.
\<close>

datatype params = ParamsNil | ParamsMap "string \<rightharpoonup> json" | ParamsOther json

record rpc_request =
  Method :: string
  Params :: params

record query =
  Request :: rpc_request

record rpc_response =
  Result :: json

datatype query_cache = QueryCache nat

text \<open>
  The environment of one run. The fault fields say which system call fails, by path;
  \<open>rand\<close> is the random source of \<open>ioutil\<close> by generator state. The other fields are
  functions of packages that are not part of this file.
\<close>

record env =
  rand :: "nat \<Rightarrow> string"
  os_TempDir :: string
  mkdir_fault :: "string \<Rightarrow> error option"
  open_fault :: "string \<Rightarrow> error option"
  copy_fault :: "string \<Rightarrow> (nat \<times> error) option"
  close_fault :: "string \<Rightarrow> error option"
  remove_fault :: "string \<Rightarrow> error option"
  auth_FromRequest :: "request \<Rightarrow> user option \<times> error option"
  proxy_GetAuthError :: "user option \<Rightarrow> error option \<Rightarrow> error option"
  auth_SDKAddress :: "user option \<Rightarrow> string"
  cache_IsOnRequest :: "request \<Rightarrow> bool"
  cache_FromRequest :: "request \<Rightarrow> query_cache"
  json_Unmarshal :: "string \<Rightarrow> rpc_request option \<times> error option"
  query_NewQuery :: "rpc_request option \<Rightarrow> error + query"
  ParamsAsMap :: "query \<Rightarrow> (string \<rightharpoonup> json) option"
  backend :: "string \<Rightarrow> query \<Rightarrow> rpc_response option \<times> error option"
  JSONRPCSerialize :: "rpc_response option \<Rightarrow> string \<times> error option"

subsection \<open>Go's \<open>fmt\<close>, \<open>path\<close>, \<open>os\<close> and \<open>io/ioutil\<close>\<close>

definition digit_char :: "nat \<Rightarrow> char" where
  "digit_char d = ''0123456789'' ! (d mod 10)"

fun digits :: "nat \<Rightarrow> string" where
  "digits n = (if n < 10 then [digit_char n] else digits (n div 10) @ [digit_char (n mod 10)])"

declare digits.simps [simp del]

text \<open>\<open>fmt.Sprintf("%d", i)\<close>\<close>

definition sprintf_d :: "int \<Rightarrow> string" where
  "sprintf_d i = (if i < 0 then CHR ''-'' # digits (nat (- i)) else digits (nat i))"

fun splitOn :: "char \<Rightarrow> string \<Rightarrow> string list" where
  "splitOn c [] = [[]]"
| "splitOn c (x # xs) =
     (if x = c then [] # splitOn c xs
      else (case splitOn c xs of [] \<Rightarrow> [[x]] | e # es \<Rightarrow> (x # e) # es))"

fun join_slash :: "string list \<Rightarrow> string" where
  "join_slash [] = []"
| "join_slash [e] = e"
| "join_slash (e # e' # es) = e @ ''/'' @ join_slash (e' # es)"

text \<open>
  The elements of a cleaned path, \<open>acc\<close> holding the elements kept so far, last first:
  empty elements and \<open>.\<close> go, \<open>..\<close> takes the element before it with it, stays where
  a relative path has nothing left to take, and goes at the root.
\<close>

fun clean_elems :: "bool \<Rightarrow> string list \<Rightarrow> string list \<Rightarrow> string list" where
  "clean_elems rooted acc [] = rev acc"
| "clean_elems rooted acc (e # es) =
     (if e = [] \<or> e = ''.'' then clean_elems rooted acc es
      else if e = ''..'' then
        (case acc of
           [] \<Rightarrow> if rooted then clean_elems rooted [] es else clean_elems rooted [''..''] es
         | a # as \<Rightarrow>
             if a = ''..'' then clean_elems rooted (''..'' # acc) es
             else clean_elems rooted as es)
      else clean_elems rooted (e # acc) es)"

definition rooted :: "string \<Rightarrow> bool" where
  "rooted p = (case p of [] \<Rightarrow> False | c # _ \<Rightarrow> c = CHR ''/'')"

text \<open>\<open>path.Clean\<close>\<close>

definition path_Clean :: "string \<Rightarrow> string" where
  "path_Clean p =
     (let out = (if rooted p then ''/'' else []) @
                join_slash (clean_elems (rooted p) [] (splitOn CHR ''/'' p))
      in if out = [] then ''.'' else out)"

text \<open>\<open>path.Join\<close>: the elements from the first non-empty one on, joined and cleaned.\<close>

definition path_Join :: "string list \<Rightarrow> string" where
  "path_Join elem =
     (case dropWhile (\<lambda>e. e = []) elem of
        [] \<Rightarrow> []
      | es \<Rightarrow> path_Clean (join_slash es))"

fun mk_chain :: "string \<Rightarrow> string list \<Rightarrow> string list" where
  "mk_chain pre [] = []"
| "mk_chain pre (e # es) = (pre @ e) # mk_chain (pre @ e @ ''/'') es"

text \<open>
  \<open>os.MkdirAll\<close>: the directory and its parents exist afterwards, unless the system
  refuses.
\<close>

definition os_MkdirAll :: "env \<Rightarrow> string \<Rightarrow> world \<Rightarrow> error option \<times> world" where
  "os_MkdirAll e p w =
     (case mkdir_fault e p of
        Some err \<Rightarrow> (Some err, w)
      | None \<Rightarrow>
          (None, w\<lparr>dirs := dirs w \<union>
             set (if rooted p then mk_chain ''/'' (tl (splitOn CHR ''/'' p))
                  else mk_chain [] (splitOn CHR ''/'' p))\<rparr>))"

text \<open>
  \<open>prefixAndSuffix\<close> of \<open>io/ioutil\<close>: the pattern is split at its last \<open>*\<close>; a
  pattern without one is all prefix.
\<close>

definition prefixAndSuffix :: "string \<Rightarrow> string \<times> string" where
  "prefixAndSuffix pattern =
     (if CHR ''*'' \<in> set pattern then
        (let suffix = rev (takeWhile (\<lambda>c. c \<noteq> CHR ''*'') (rev pattern))
         in (take (length pattern - length suffix - 1) pattern, suffix))
      else (pattern, []))"

text \<open>
  The loop of \<open>ioutil.TempFile\<close>, with the number of tries that are left: the name is
  the prefix, the next random string and the suffix; the file is opened with
  \<open>O_CREATE|O_EXCL\<close>, so a name that exists is tried again with the next random string.
\<close>

fun TempFile_loop :: "env \<Rightarrow> string \<Rightarrow> string \<Rightarrow> string \<Rightarrow> nat \<Rightarrow> world \<Rightarrow> os_file option \<times> error option \<times> world" where
  "TempFile_loop e dir prefix suffix 0 w = (None, Some ErrExist, w)"
| "TempFile_loop e dir prefix suffix (Suc k) w =
     (let name = path_Join [dir, prefix @ rand e (seed w) @ suffix];
          w1 = w\<lparr>seed := Suc (seed w)\<rparr>
      in if files w1 name \<noteq> None \<or> name \<in> dirs w1 then TempFile_loop e dir prefix suffix k w1
         else (case open_fault e name of
                 Some err \<Rightarrow> (None, Some err, w1)
               | None \<Rightarrow> (Some (File name), None, w1\<lparr>files := (files w1)(name \<mapsto> [])\<rparr>)))"

text \<open>
  \<open>ioutil.TempFile\<close>: a pattern with a path separator is refused; an empty
  directory stands for the default one.
\<close>

definition ioutil_TempFile :: "env \<Rightarrow> string \<Rightarrow> string \<Rightarrow> world \<Rightarrow> os_file option \<times> error option \<times> world" where
  "ioutil_TempFile e dir pattern w =
     (if CHR ''/'' \<in> set pattern then (None, Some ErrPatternHasSeparator, w)
      else
        (case prefixAndSuffix pattern of
           (prefix, suffix) \<Rightarrow>
             TempFile_loop e (if dir = [] then os_TempDir e else dir) prefix suffix 10000 w))"

text \<open>
  \<open>io.Copy\<close> into the file of that name: all the bytes, or the first \<open>n\<close> of them and
  an error.
\<close>

definition io_Copy :: "env \<Rightarrow> os_file \<Rightarrow> string \<Rightarrow> world \<Rightarrow> nat \<times> error option \<times> world" where
  "io_Copy e f src w =
     (case copy_fault e (Name f) of
        None \<Rightarrow> (length src, None, w\<lparr>files := (files w)(Name f \<mapsto> src)\<rparr>)
      | Some (n, err) \<Rightarrow>
          (min n (length src), Some err, w\<lparr>files := (files w)(Name f \<mapsto> take n src)\<rparr>))"

text \<open>\<open>File.Close\<close>\<close>

definition file_Close :: "env \<Rightarrow> os_file \<Rightarrow> error option" where
  "file_Close e f = close_fault e (Name f)"

text \<open>\<open>os.Remove\<close>: fails on a name that does not exist, or where the system refuses.\<close>

definition os_Remove :: "env \<Rightarrow> string \<Rightarrow> world \<Rightarrow> error option \<times> world" where
  "os_Remove e name w =
     (if files w name = None then (Some ErrNotExist, w)
      else (case remove_fault e name of
              Some err \<Rightarrow> (Some err, w)
            | None \<Rightarrow> (None, w\<lparr>files := (files w)(name := None)\<rparr>)))"

subsection \<open>\<open>Handler.createFile\<close> and \<open>Handler.saveFile\<close>\<close>

definition fileFieldName :: string where
  "fileFieldName = ''file''"

definition jsonRPCFieldName :: string where
  "jsonRPCFieldName = ''json_payload''"

definition fileNameParam :: string where
  "fileNameParam = ''file_path''"

record handler =
  UploadPath :: string

definition createFile :: "handler \<Rightarrow> env \<Rightarrow> int \<Rightarrow> string \<Rightarrow> world \<Rightarrow> os_file option \<times> error option \<times> world" where
  "createFile h e userID origFilename w =
     (let path = path_Join [UploadPath h, sprintf_d userID] in
      case os_MkdirAll e path w of
        (Some err, w1) \<Rightarrow> (None, Some err, w1)
      | (None, w1) \<Rightarrow> ioutil_TempFile e path (''*_'' @ origFilename) w1)"

text \<open>
  The uploaded part is closed by a deferred call whose error is dropped. A \<open>nil\<close> file
  from \<open>createFile\<close> without an error would make \<open>io.Copy\<close> fail with
  \<open>os.ErrInvalid\<close>.
\<close>

definition saveFile :: "handler \<Rightarrow> env \<Rightarrow> request \<Rightarrow> int \<Rightarrow> world \<Rightarrow> os_file option \<times> error option \<times> world" where
  "saveFile h e r userID w =
     (case FormFile r fileFieldName of
        Inl err \<Rightarrow> (None, Some err, w)
      | Inr (file, header) \<Rightarrow>
          (case createFile h e userID (Filename header) w of
             (f, Some err, w1) \<Rightarrow> (None, Some err, w1)
           | (None, None, w1) \<Rightarrow> (None, Some ErrInvalid, w1)
           | (Some f, None, w1) \<Rightarrow>
               (case io_Copy e f file w1 of
                  (numWritten, Some err, w2) \<Rightarrow> (None, Some err, w2)
                | (numWritten, None, w2) \<Rightarrow>
                    (case file_Close e f of
                       Some err \<Rightarrow> (None, Some err, w2)
                     | None \<Rightarrow> (Some f, None, w2)))))"

subsection \<open>\<open>getCaller\<close> and the call of the SDK\<close>

text \<open>
  What a pre-dispatch hook does to the query it is given: it returns the query as it
  has left it with a response and an error, or it panics. The hook's first argument,
  the caller, is left out: the hook of this package does not read it.
\<close>

datatype hook_ret = HookRet query "rpc_response option" "error option" | HookPanic

record caller =
  endpoint :: string
  caller_userID :: int
  Cache :: "query_cache option"
  preflightHooks :: "(query \<Rightarrow> hook_ret) list"

text \<open>
  Modelled from the spec: \<open>query.NewCaller\<close> and \<open>Caller.AddPreflightHook\<close> are not
  part of this file. A call object is bound to the backend address and the principal,
  and carries an ordered list of pre-dispatch hooks, empty at first.
\<close>

definition NewCaller :: "string \<Rightarrow> int \<Rightarrow> caller" where
  "NewCaller sdkAddress userID =
     \<lparr>endpoint = sdkAddress, caller_userID = userID, Cache = None, preflightHooks = []\<rparr>"

definition AddPreflightHook :: "caller \<Rightarrow> (query \<Rightarrow> hook_ret) \<Rightarrow> caller" where
  "AddPreflightHook c hook = c\<lparr>preflightHooks := preflightHooks c @ [hook]\<rparr>"

text \<open>
  The hook of \<open>getCaller\<close>. \<open>q.ParamsAsMap()\<close> is a function of the package \<open>query\<close>;
  writing to the map it returns panics if the map is \<open>nil\<close>.
\<close>

definition fileHook :: "env \<Rightarrow> string \<Rightarrow> query \<Rightarrow> hook_ret" where
  "fileHook e filename q =
     (case ParamsAsMap e q of
        None \<Rightarrow> HookPanic
      | Some params \<Rightarrow>
          HookRet (q\<lparr>Request := (Request q)\<lparr>Params := ParamsMap (params(fileNameParam \<mapsto> JStr filename))\<rparr>\<rparr>)
            None None)"

definition getCaller :: "env \<Rightarrow> string \<Rightarrow> string \<Rightarrow> int \<Rightarrow> query_cache option \<Rightarrow> caller" where
  "getCaller e sdkAddress filename userID qCache =
     AddPreflightHook ((NewCaller sdkAddress userID)\<lparr>Cache := qCache\<rparr>) (fileHook e filename)"

text \<open>
  Modelled from the spec: \<open>Caller.Call\<close> is not part of this file. The hooks run in
  order before the call is sent; a hook that returns an error or a response ends the
  call there, otherwise the query as the hooks have left it goes to the backend.
\<close>

fun run_hooks :: "(query \<Rightarrow> hook_ret) list \<Rightarrow> query \<Rightarrow> hook_ret" where
  "run_hooks [] q = HookRet q None None"
| "run_hooks (hook # hooks) q =
     (case hook q of
        HookPanic \<Rightarrow> HookPanic
      | HookRet q' res (Some err) \<Rightarrow> HookRet q' None (Some err)
      | HookRet q' (Some res) None \<Rightarrow> HookRet q' (Some res) None
      | HookRet q' None None \<Rightarrow> run_hooks hooks q')"

datatype call_ret = CallRet "rpc_response option" "error option" | CallPanic

text \<open>The result of the call, and what was sent to which backend.\<close>

definition Call :: "env \<Rightarrow> caller \<Rightarrow> rpc_request option \<Rightarrow> call_ret \<times> (string \<times> query) list" where
  "Call e c req =
     (case query_NewQuery e req of
        Inl err \<Rightarrow> (CallRet None (Some err), [])
      | Inr q \<Rightarrow>
          (case run_hooks (preflightHooks c) q of
             HookPanic \<Rightarrow> (CallPanic, [])
           | HookRet q' res (Some err) \<Rightarrow> (CallRet None (Some err), [])
           | HookRet q' (Some res) None \<Rightarrow> (CallRet (Some res) None, [])
           | HookRet q' None None \<Rightarrow>
               (case backend e (endpoint c) q' of
                  (res, err) \<Rightarrow> (CallRet res err, [(endpoint c, q')]))))"

subsection \<open>\<open>Handler.Handle\<close> and \<open>Handler.CanHandle\<close>\<close>

text \<open>
  What \<open>Handle\<close> writes to the response: the functions of \<open>rpcerrors\<close> and
  \<open>responses\<close> that render it are kept as constructors.
\<close>

datatype body =
    ErrorToJSON error
  | InternalErrorJSON error
  | JSONParseErrorJSON error
  | ToJSON error
  | Serialized string

text \<open>
  What \<open>Handle\<close> does besides writing: it calls \<open>saveFile\<close> for a principal, calls
  the SDK through \<open>Caller.Call\<close>, which may send a query to a backend, removes a file,
  reports an error to Sentry.
\<close>

datatype event =
    EvSaveFile int
  | EvCall
  | EvDispatch string query
  | EvRemove string
  | EvSentry error

text \<open>The \<open>return\<close> by which \<open>Handle\<close> ends, or a panic.\<close>

datatype exit_path =
    AuthFailed
  | NoSDKAddress
  | SaveFailed
  | ParseFailed
  | CallFailed
  | SerializeFailed
  | Succeeded
  | Panicked

record result =
  world_of :: world
  written :: "body list"
  trace :: "event list"
  exit_path :: exit_path

text \<open>
  Lines 70 to 100 of \<open>Handle\<close>, which run once the file is saved and its removal is
  deferred: they do not touch the file system.
\<close>

definition serve :: "env \<Rightarrow> request \<Rightarrow> user \<Rightarrow> os_file \<Rightarrow> body list \<times> event list \<times> exit_path" where
  "serve e r u f =
     (let qCache = (if cache_IsOnRequest e r then Some (cache_FromRequest e r) else None) in
      case json_Unmarshal e (FormValue r jsonRPCFieldName) of
        (rpcReq, Some err) \<Rightarrow> ([JSONParseErrorJSON err], [], ParseFailed)
      | (rpcReq, None) \<Rightarrow>
          (let c = getCaller e (auth_SDKAddress e (Some u)) (Name f) (ID u) qCache in
           case Call e c rpcReq of
             (CallPanic, sent) \<Rightarrow>
               ([], EvCall # map (\<lambda>(a, q). EvDispatch a q) sent, Panicked)
           | (CallRet rpcRes (Some err), sent) \<Rightarrow>
               ([ToJSON err], EvCall # map (\<lambda>(a, q). EvDispatch a q) sent @ [EvSentry err],
                CallFailed)
           | (CallRet rpcRes None, sent) \<Rightarrow>
               (case JSONRPCSerialize e rpcRes of
                  (serialized, Some err) \<Rightarrow>
                    ([InternalErrorJSON err],
                     EvCall # map (\<lambda>(a, q). EvDispatch a q) sent @ [EvSentry err],
                     SerializeFailed)
                | (serialized, None) \<Rightarrow>
                    ([Serialized serialized],
                     EvCall # map (\<lambda>(a, q). EvDispatch a q) sent, Succeeded))))"

text \<open>
  The deferred function of \<open>Handle\<close>: it removes the file and reports a failure to
  remove it.
\<close>

definition cleanup :: "env \<Rightarrow> os_file \<Rightarrow> world \<Rightarrow> event list \<times> world" where
  "cleanup e f w =
     (case os_Remove e (Name f) w of
        (Some err, w') \<Rightarrow> ([EvRemove (Name f), EvSentry err], w')
      | (None, w') \<Rightarrow> ([EvRemove (Name f)], w'))"

text \<open>
  \<open>Handle\<close>. Reading \<open>user.ID\<close> of a \<open>nil\<close> user panics, and so does \<open>f.Name()\<close> of a
  \<open>nil\<close> file; the deferred function runs on every way out of the lines after it.
\<close>

definition Handle :: "handler \<Rightarrow> env \<Rightarrow> request \<Rightarrow> world \<Rightarrow> result" where
  "Handle h e r w =
     (case auth_FromRequest e r of
        (user, err) \<Rightarrow>
          (case proxy_GetAuthError e user err of
             Some authErr \<Rightarrow>
               \<lparr>world_of = w, written = [ErrorToJSON authErr], trace = [], exit_path = AuthFailed\<rparr>
           | None \<Rightarrow>
               if auth_SDKAddress e user = [] then
                 \<lparr>world_of = w,
                  written = [InternalErrorJSON (ErrMsg ''user does not have sdk address assigned'')],
                  trace = [],
                  exit_path = (case user of None \<Rightarrow> Panicked | Some u \<Rightarrow> NoSDKAddress)\<rparr>
               else
                 (case user of
                    None \<Rightarrow> \<lparr>world_of = w, written = [], trace = [], exit_path = Panicked\<rparr>
                  | Some u \<Rightarrow>
                      (case saveFile h e r (ID u) w of
                         (f, Some err, w1) \<Rightarrow>
                           \<lparr>world_of = w1, written = [InternalErrorJSON err],
                            trace = [EvSaveFile (ID u), EvSentry err], exit_path = SaveFailed\<rparr>
                       | (None, None, w1) \<Rightarrow>
                           \<lparr>world_of = w1,
                            written =
                              (case json_Unmarshal e (FormValue r jsonRPCFieldName) of
                                 (rpcReq, Some err) \<Rightarrow> [JSONParseErrorJSON err]
                               | (rpcReq, None) \<Rightarrow> []),
                            trace = [EvSaveFile (ID u)], exit_path = Panicked\<rparr>
                       | (Some f, None, w1) \<Rightarrow>
                           (case serve e r u f of
                              (bodies, evs, ex) \<Rightarrow>
                                (case cleanup e f w1 of
                                   (cevs, w2) \<Rightarrow>
                                     \<lparr>world_of = w2, written = bodies,
                                      trace = EvSaveFile (ID u) # evs @ cevs,
                                      exit_path = ex\<rparr>))))))"

text \<open>
  \<open>CanHandle\<close>. \<open>errors.Is(err, http.ErrMissingFile)\<close> holds of that error alone.
\<close>

definition CanHandle :: "handler \<Rightarrow> request \<Rightarrow> bool" where
  "CanHandle h r =
     ((case FormFile r fileFieldName of Inl err \<Rightarrow> err \<noteq> ErrMissingFile | Inr _ \<Rightarrow> True)
      \<and> FormValue r jsonRPCFieldName \<noteq> [])"

subsection \<open>A sample run: principal 42 uploads \<open>video.mp4\<close>\<close>

definition payload :: string where
  \<open>payload = ''{"method":"publish","params":{"name":"x","file_path":"/etc/passwd"}}''\<close>

definition sample_handler :: handler where
  "sample_handler = \<lparr>UploadPath = ''/up''\<rparr>"

definition sample_world :: world where
  "sample_world = \<lparr>files = Map.empty, dirs = {''/up''}, seed = 0\<rparr>"

definition sample_env :: env where
  "sample_env =
     \<lparr>rand = (\<lambda>n. digits (123 + n)),
      os_TempDir = ''/tmp'',
      mkdir_fault = (\<lambda>p. None),
      open_fault = (\<lambda>p. None),
      copy_fault = (\<lambda>p. None),
      close_fault = (\<lambda>p. None),
      remove_fault = (\<lambda>p. None),
      auth_FromRequest =
        (\<lambda>r. if credentials r = ''token'' then (Some \<lparr>ID = 42\<rparr>, None)
             else if credentials r = ''new'' then (Some \<lparr>ID = 7\<rparr>, None)
             else (None, Some (ErrMsg ''no auth info''))),
      proxy_GetAuthError =
        (\<lambda>u err. case err of Some x \<Rightarrow> Some x
                  | None \<Rightarrow> (case u of None \<Rightarrow> Some (ErrMsg ''must authenticate'') | Some v \<Rightarrow> None)),
      auth_SDKAddress =
        (\<lambda>u. case u of None \<Rightarrow> [] | Some v \<Rightarrow> if ID v = 42 then ''sdk:5279'' else []),
      cache_IsOnRequest = (\<lambda>r. False),
      cache_FromRequest = (\<lambda>r. QueryCache 0),
      json_Unmarshal =
        (\<lambda>s. if s = payload
             then (Some \<lparr>Method = ''publish'',
                          Params = ParamsMap [''name'' \<mapsto> JStr ''x'', ''file_path'' \<mapsto> JStr ''/etc/passwd'']\<rparr>,
                   None)
             else (None, Some (ErrMsg ''invalid character''))),
      query_NewQuery =
        (\<lambda>req. case req of None \<Rightarrow> Inl (ErrMsg ''nil request'') | Some rq \<Rightarrow> Inr \<lparr>Request = rq\<rparr>),
      ParamsAsMap = (\<lambda>q. case Params (Request q) of ParamsMap m \<Rightarrow> Some m | _ \<Rightarrow> None),
      backend = (\<lambda>a q. (Some \<lparr>Result = JStr ''claim''\<rparr>, None)),
      JSONRPCSerialize =
        (\<lambda>res. case res of None \<Rightarrow> ([], Some (ErrMsg ''nil response''))
                | Some rs \<Rightarrow> (''{result}'', None))\<rparr>"

definition upload :: "string \<Rightarrow> string \<Rightarrow> string \<Rightarrow> request" where
  "upload filename json cred =
     \<lparr>MultipartForm =
        Multipart (\<lambda>k. if k = ''file''
                       then [\<lparr>Filename = filename, content = ''data'', open_err = None\<rparr>]
                       else []),
      Form = (\<lambda>k. if k = ''json_payload'' then [json] else []),
      credentials = cred\<rparr>"

text \<open>A form post that is not \<open>multipart/form-data\<close>: it has values and no file part.\<close>

definition urlencoded :: "string \<Rightarrow> string \<Rightarrow> request" where
  "urlencoded json cred =
     \<lparr>MultipartForm = NotMultipart,
      Form = (\<lambda>k. if k = ''json_payload'' then [json] else []),
      credentials = cred\<rparr>"

text \<open>A multipart form with the JSON field and no file part.\<close>

definition no_file :: "string \<Rightarrow> string \<Rightarrow> request" where
  "no_file json cred =
     \<lparr>MultipartForm = Multipart (\<lambda>k. []),
      Form = (\<lambda>k. if k = ''json_payload'' then [json] else []),
      credentials = cred\<rparr>"

text \<open>The same environment with one fault each.\<close>

definition remove_denied_env :: env where
  "remove_denied_env = sample_env\<lparr>remove_fault := (\<lambda>p. Some (ErrMsg ''permission denied''))\<rparr>"

definition disk_full_env :: env where
  "disk_full_env = sample_env\<lparr>copy_fault := (\<lambda>p. Some (2, ErrMsg ''no space left on device''))\<rparr>"

definition repeating_env :: env where
  "repeating_env = sample_env\<lparr>rand := (\<lambda>n. ''123'')\<rparr>"

definition sdk_down_env :: env where
  "sdk_down_env = sample_env\<lparr>backend := (\<lambda>a q. (None, Some (ErrMsg ''connection refused'')))\<rparr>"

definition bad_response_env :: env where
  "bad_response_env = sample_env\<lparr>JSONRPCSerialize := (\<lambda>res. ([], Some (ErrMsg ''unsupported value'')))\<rparr>"

text \<open>The query the backend receives in the sample run.\<close>

definition sample_sent :: query where
  "sample_sent =
     \<lparr>Request = \<lparr>Method = ''publish'',
                  Params = ParamsMap [''name'' \<mapsto> JStr ''x'',
                                      ''file_path'' \<mapsto> JStr ''/up/42/123_video.mp4'']\<rparr>\<rparr>"

section \<open>Properties\<close>

subsection \<open>Evaluation and the temporary file\<close>

lemma TempFile_loop_numeral:
  "TempFile_loop e dir prefix suffix (numeral n) w =
     (let name = path_Join [dir, prefix @ rand e (seed w) @ suffix];
          w1 = w\<lparr>seed := Suc (seed w)\<rparr>
      in if files w1 name \<noteq> None \<or> name \<in> dirs w1
         then TempFile_loop e dir prefix suffix (pred_numeral n) w1
         else (case open_fault e name of
                 Some err \<Rightarrow> (None, Some err, w1)
               | None \<Rightarrow> (Some (File name), None, w1\<lparr>files := (files w1)(name \<mapsto> [])\<rparr>)))"
  by (simp add: numeral_eq_Suc)

lemma TempFile_loop_nil_iff:
  "TempFile_loop e dir prefix suffix k w = (f, err, w') \<Longrightarrow> (f = None) = (err \<noteq> None)"
proof (induction k arbitrary: w)
  case 0
  then show ?case by auto
next
  case (Suc k)
  let ?name = "path_Join [dir, prefix @ rand e (seed w) @ suffix]"
  let ?w1 = "w\<lparr>seed := Suc (seed w)\<rparr>"
  show ?case
  proof (cases "files ?w1 ?name \<noteq> None \<or> ?name \<in> dirs ?w1")
    case True
    with Suc.prems have "TempFile_loop e dir prefix suffix k ?w1 = (f, err, w')"
      by (simp add: Let_def)
    then show ?thesis by (rule Suc.IH)
  next
    case False
    with Suc.prems have
      "(case open_fault e ?name of
          Some x \<Rightarrow> (None, Some x, ?w1)
        | None \<Rightarrow> (Some (File ?name), None, ?w1\<lparr>files := (files ?w1)(?name \<mapsto> [])\<rparr>)) = (f, err, w')"
      by (simp add: Let_def)
    then have opened:
      "(case open_fault e ?name of
          Some x \<Rightarrow> (None, Some x, ?w1)
        | None \<Rightarrow> (Some (File ?name), None, ?w1\<lparr>files := (files ?w1)(?name \<mapsto> [])\<rparr>)) = (f, err, w')" .
    show ?thesis
    proof (cases "open_fault e ?name")
      case None
      with opened have "f = Some (File ?name)" and "err = None" by simp_all
      then show ?thesis by simp
    next
      case (Some a)
      with opened have "f = None" and "err = Some a" by simp_all
      then show ?thesis by simp
    qed
  qed
qed

lemma TempFile_loop_fresh:
  "TempFile_loop e dir prefix suffix k w = (Some f, err, w') \<Longrightarrow>
     files w (Name f) = None \<and> Name f \<notin> dirs w \<and> files w' (Name f) = Some [] \<and>
     dirs w' = dirs w \<and> (\<exists>n. Name f = path_Join [dir, prefix @ rand e n @ suffix])"
proof (induction k arbitrary: w)
  case 0
  then show ?case by simp
next
  case (Suc k)
  let ?name = "path_Join [dir, prefix @ rand e (seed w) @ suffix]"
  let ?w1 = "w\<lparr>seed := Suc (seed w)\<rparr>"
  show ?case
  proof (cases "files ?w1 ?name \<noteq> None \<or> ?name \<in> dirs ?w1")
    case True
    with Suc.prems have "TempFile_loop e dir prefix suffix k ?w1 = (Some f, err, w')"
      by (simp add: Let_def)
    from Suc.IH [OF this] show ?thesis by simp
  next
    case False
    with Suc.prems have
      "(case open_fault e ?name of
          Some x \<Rightarrow> (None, Some x, ?w1)
        | None \<Rightarrow> (Some (File ?name), None, ?w1\<lparr>files := (files ?w1)(?name \<mapsto> [])\<rparr>)) = (Some f, err, w')"
      by (simp add: Let_def)
    with False show ?thesis
      by (cases "open_fault e ?name") auto
  qed
qed

lemma os_MkdirAll_files:
  "os_MkdirAll e p w = (err, w') \<Longrightarrow> files w' = files w \<and> dirs w \<subseteq> dirs w'"
  by (auto simp: os_MkdirAll_def split: option.splits)

lemma ioutil_TempFile_nil_iff:
  "ioutil_TempFile e dir pattern w = (f, err, w') \<Longrightarrow> (f = None) = (err \<noteq> None)"
  unfolding ioutil_TempFile_def
  by (auto split: if_splits prod.splits dest: TempFile_loop_nil_iff)

lemma ioutil_TempFile_fresh:
  "ioutil_TempFile e dir pattern w = (Some f, err, w') \<Longrightarrow>
     files w (Name f) = None \<and> files w' (Name f) = Some []"
  unfolding ioutil_TempFile_def
  by (auto split: if_splits prod.splits dest: TempFile_loop_fresh)

lemma createFile_nil_iff:
  "createFile h e userID origFilename w = (f, err, w') \<Longrightarrow> (f = None) = (err \<noteq> None)"
  unfolding createFile_def Let_def
  by (auto split: option.splits prod.splits dest: ioutil_TempFile_nil_iff)

lemma createFile_fresh:
  "createFile h e userID origFilename w = (Some f, err, w') \<Longrightarrow>
     files w (Name f) = None \<and> files w' (Name f) = Some []"
  unfolding createFile_def Let_def
  by (auto split: option.splits prod.splits dest!: ioutil_TempFile_fresh os_MkdirAll_files)

text \<open>
  \<open>saveFile\<close> returns a file or an error and never both or neither, so the lines of
  \<open>Handle\<close> that would run with neither are dead. The file it returns is new and
  holds the bytes of the uploaded part.
\<close>

lemma saveFile_nil_iff:
  "saveFile h e r userID w = (f, err, w') \<Longrightarrow> (f = None) = (err \<noteq> None)"
  by (cases f; cases err)
    (auto simp: saveFile_def split: sum.splits prod.splits option.splits)


lemma prefixAndSuffix_no_star:
  assumes "CHR ''*'' \<notin> set origFilename"
  shows "prefixAndSuffix (''*_'' @ origFilename) = ([], ''_'' @ origFilename)"
proof -
  have "\<And>c. c \<in> set (rev origFilename) \<Longrightarrow> c \<noteq> CHR ''*''"
    using assms by auto
  from takeWhile_append2 [of "rev origFilename" "\<lambda>c. c \<noteq> CHR ''*''" "''_*''", OF this]
  have "takeWhile (\<lambda>c. c \<noteq> CHR ''*'') (rev origFilename @ ''_*'') = rev origFilename @ ''_''"
    by simp
  then show ?thesis
    by (simp add: prefixAndSuffix_def)
qed

lemma digits_not_empty: "digits n \<noteq> []"
  by (subst digits.simps) simp

lemma path_Clean_not_empty: "path_Clean p \<noteq> []"
  by (simp add: path_Clean_def Let_def)

lemma upload_dir_not_empty: "path_Join [root, sprintf_d userID] \<noteq> []"
  by (simp add: path_Join_def sprintf_d_def digits_not_empty path_Clean_not_empty)

text \<open>
  Where the original file name has no star, the file of a successful \<open>createFile\<close>
  is the random string, an underscore and the original name, in the principal's
  directory under the upload root.
\<close>

lemma createFile_path_without_star:
  assumes "createFile h e userID origFilename w = (Some f, err, w')"
    and "CHR ''*'' \<notin> set origFilename"
  shows "\<exists>n. Name f =
     path_Join [path_Join [UploadPath h, sprintf_d userID], rand e n @ ''_'' @ origFilename]"
proof -
  let ?dir = "path_Join [UploadPath h, sprintf_d userID]"
  obtain merr w1 where m: "os_MkdirAll e ?dir w = (merr, w1)"
    by (cases "os_MkdirAll e ?dir w") auto
  with assms(1) have t: "ioutil_TempFile e ?dir (''*_'' @ origFilename) w1 = (Some f, err, w')"
    by (cases merr) (simp_all add: createFile_def Let_def)
  then have "TempFile_loop e ?dir [] (''_'' @ origFilename) 10000 w1 = (Some f, err, w')"
    using prefixAndSuffix_no_star [OF assms(2)] upload_dir_not_empty [of "UploadPath h" userID]
    by (simp add: ioutil_TempFile_def split: if_splits)
  from TempFile_loop_fresh [OF this] show ?thesis
    by simp
qed

lemmas run_defs =
  saveFile_def createFile_def FormFile_def FormValue_def fileFieldName_def jsonRPCFieldName_def
  fileNameParam_def path_Join_def path_Clean_def rooted_def sprintf_d_def digits.simps
  digit_char_def os_MkdirAll_def ioutil_TempFile_def TempFile_loop_numeral prefixAndSuffix_def
  io_Copy_def file_Close_def os_Remove_def Let_def
  sample_handler_def sample_env_def sample_world_def upload_def urlencoded_def no_file_def
  Handle_def serve_def cleanup_def getCaller_def NewCaller_def AddPreflightHook_def
  fileHook_def Call_def CanHandle_def has_file_part_def form_parsed_def
  remove_denied_env_def disk_full_env_def repeating_env_def sdk_down_env_def bad_response_env_def sample_sent_def

subsection \<open>\<open>Handle\<close> and \<open>Call\<close>, step by step\<close>

lemma cleanup_events:
  "cleanup e f w = (cevs, w') \<Longrightarrow>
     EvRemove (Name f) \<in> set cevs \<and> EvCall \<notin> set cevs \<and> (\<forall>a q. EvDispatch a q \<notin> set cevs)"
  by (auto simp: cleanup_def split: prod.splits option.splits)




lemma serve_parse_failed:
  "json_Unmarshal e (FormValue r jsonRPCFieldName) = (rpcReq, Some perr) \<Longrightarrow>
     serve e r u f = ([JSONParseErrorJSON perr], [], ParseFailed)"
  by (simp add: serve_def)

lemma Handle_saved:
  assumes "auth_FromRequest e r = (Some u, err)"
    and "proxy_GetAuthError e (Some u) err = None"
    and "auth_SDKAddress e (Some u) \<noteq> []"
    and "saveFile h e r (ID u) w = (Some f, None, w1)"
  shows "Handle h e r w =
     \<lparr>world_of = snd (cleanup e f w1),
      written = fst (serve e r u f),
      trace = EvSaveFile (ID u) # fst (snd (serve e r u f)) @ fst (cleanup e f w1),
      exit_path = snd (snd (serve e r u f))\<rparr>"
  using assms by (simp add: Handle_def split: prod.splits)

text \<open>
  When \<open>saveFile\<close> fails, \<open>Handle\<close> reports and writes the error and returns:
  the file system stays as \<open>saveFile\<close> left it.
\<close>

lemma Handle_save_failed:
  assumes "auth_FromRequest e r = (Some u, err)"
    and "proxy_GetAuthError e (Some u) err = None"
    and "auth_SDKAddress e (Some u) \<noteq> []"
    and "saveFile h e r (ID u) w = (f, Some serr, w1)"
  shows "Handle h e r w =
     \<lparr>world_of = w1, written = [InternalErrorJSON serr],
      trace = [EvSaveFile (ID u), EvSentry serr], exit_path = SaveFailed\<rparr>"
  using assms by (cases f) (simp_all add: Handle_def)

text \<open>
  What \<open>CanHandle\<close> computes: of the errors of \<open>FormFile\<close> it tests for
  \<open>http.ErrMissingFile\<close> alone, so a form that did not parse passes its first test.
\<close>

lemma CanHandle_iff:
  "CanHandle h r =
     ((has_file_part r fileFieldName \<or> \<not> form_parsed r) \<and> FormValue r jsonRPCFieldName \<noteq> [])"
  by (auto simp: CanHandle_def FormFile_def has_file_part_def form_parsed_def
      split: multipart_form.splits list.splits option.splits)

text \<open>
  A request without a file part never gets past \<open>saveFile\<close>: whatever \<open>CanHandle\<close>
  says of it, \<open>Handle\<close> calls nothing, leaves the file system as it was and ends in
  an error.
\<close>

lemma Handle_without_file_part:
  assumes "\<not> has_file_part r fileFieldName"
  shows "exit_path (Handle h e r w) \<in> {AuthFailed, NoSDKAddress, SaveFailed, Panicked} \<and>
         world_of (Handle h e r w) = w \<and> EvCall \<notin> set (trace (Handle h e r w))"
proof -
  have sf: "\<exists>serr. saveFile h e r userID w = (None, Some serr, w)" for userID
    using assms
    by (auto simp: has_file_part_def saveFile_def FormFile_def
        split: multipart_form.splits list.splits)
  obtain user aerr where a: "auth_FromRequest e r = (user, aerr)"
    by (cases "auth_FromRequest e r") auto
  show ?thesis
  proof (cases "proxy_GetAuthError e user aerr")
    case (Some authErr)
    with a show ?thesis
      by (simp add: Handle_def)
  next
    case allowed: None
    show ?thesis
    proof (cases user)
      case None
      with a allowed show ?thesis
        by (simp add: Handle_def)
    next
      case (Some u)
      from sf obtain serr where "saveFile h e r (ID u) w = (None, Some serr, w)"
        by blast
      with a allowed Some show ?thesis
        by (simp add: Handle_def)
    qed
  qed
qed

lemma getCaller_hooks:
  "preflightHooks (getCaller e sdkAddress filename userID qCache) = [fileHook e filename] \<and>
   endpoint (getCaller e sdkAddress filename userID qCache) = sdkAddress"
  by (simp add: getCaller_def AddPreflightHook_def NewCaller_def)

text \<open>
  The hook changes the one key and nothing else, and returns neither a response nor an
  error of its own.
\<close>

lemma fileHook_sets_path:
  "fileHook e filename q = HookRet q' res err \<Longrightarrow>
     \<exists>m. ParamsAsMap e q = Some m \<and>
         Params (Request q') = ParamsMap (m(fileNameParam \<mapsto> JStr filename)) \<and>
         Method (Request q') = Method (Request q) \<and> res = None \<and> err = None"
  by (auto simp: fileHook_def split: option.splits)

lemma run_fileHook:
  "run_hooks [fileHook e filename] q = HookRet q' res err \<Longrightarrow>
     \<exists>m. Params (Request q') = ParamsMap m \<and> m fileNameParam = Some (JStr filename)"
  by (auto simp: fileHook_def split: option.splits)

lemma Call_getCaller_sent:
  assumes "Call e (getCaller e sdkAddress filename userID qCache) req = (ret, sent)"
    and "(a, q) \<in> set sent"
  shows "a = sdkAddress \<and>
     (\<exists>m. Params (Request q) = ParamsMap m \<and> m fileNameParam = Some (JStr filename))"
proof (cases "query_NewQuery e req")
  case (Inl x)
  with assms show ?thesis
    by (simp add: Call_def)
next
  case (Inr q0)
  show ?thesis
  proof (cases "run_hooks [fileHook e filename] q0")
    case HookPanic
    with Inr assms show ?thesis
      by (simp add: Call_def getCaller_hooks)
  next
    case (HookRet q' res err)
    from run_fileHook [OF this] HookRet Inr assms show ?thesis
      by (auto simp: Call_def getCaller_hooks split: option.splits prod.splits)
  qed
qed

lemma serve_dispatch:
  assumes "serve e r u f = (bodies, evs, ex)" and "EvDispatch a q \<in> set evs"
  shows "a = auth_SDKAddress e (Some u) \<and>
     (\<exists>m. Params (Request q) = ParamsMap m \<and> m fileNameParam = Some (JStr (Name f)))"
proof -
  let ?qCache = "if cache_IsOnRequest e r then Some (cache_FromRequest e r) else None"
  obtain rpcReq perr where j: "json_Unmarshal e (FormValue r jsonRPCFieldName) = (rpcReq, perr)"
    by (cases "json_Unmarshal e (FormValue r jsonRPCFieldName)") auto
  obtain ret sent where c:
    "Call e (getCaller e (auth_SDKAddress e (Some u)) (Name f) (ID u) ?qCache) rpcReq = (ret, sent)"
    by (cases "Call e (getCaller e (auth_SDKAddress e (Some u)) (Name f) (ID u) ?qCache) rpcReq") auto
  from assms j c have "(a, q) \<in> set sent"
    by (auto simp: serve_def Let_def split: option.splits call_ret.splits prod.splits)
  from Call_getCaller_sent [OF c this] show ?thesis .
qed

subsection \<open>The claims\<close>




text \<open>
  C2: every query that \<open>Handle\<close> sends to a backend goes to the principal's SDK
  address and has a parameter map in which \<open>file_path\<close> is the name of the file that
  \<open>saveFile\<close> returned, whatever the client had put under that key.
\<close>

theorem Handle_dispatch_file_path:
  assumes "auth_FromRequest e r = (Some u, err)"
    and "saveFile h e r (ID u) w = (Some f, None, w1)"
    and "EvDispatch a q \<in> set (trace (Handle h e r w))"
  shows "a = auth_SDKAddress e (Some u) \<and>
     (\<exists>m. Params (Request q) = ParamsMap m \<and> m fileNameParam = Some (JStr (Name f)))"
proof -
  obtain bodies evs ex where s: "serve e r u f = (bodies, evs, ex)"
    by (cases "serve e r u f") auto
  obtain cevs w2 where c: "cleanup e f w1 = (cevs, w2)"
    by (cases "cleanup e f w1") auto
  from assms s c cleanup_events [OF c] have "EvDispatch a q \<in> set evs"
    by (auto simp: Handle_def split: option.splits if_splits)
  from serve_dispatch [OF s this] show ?thesis .
qed

theorem Handle_dispatch_file_path_witness:
  "EvDispatch ''sdk:5279'' sample_sent \<in>
     set (trace (Handle sample_handler sample_env (upload ''video.mp4'' payload ''token'') sample_world)) \<and>
   (\<exists>m. Params (Request sample_sent) = ParamsMap m \<and>
      m fileNameParam = Some (JStr ''/up/42/123_video.mp4''))"
proof -
  let ?f = "File ''/up/42/123_video.mp4''"
  let ?w1 = "\<lparr>files = [''/up/42/123_video.mp4'' \<mapsto> ''data''], dirs = {''/up'', ''/up/42''}, seed = 1\<rparr>"
  let ?u = "\<lparr>ID = 42\<rparr>"
  let ?good = "upload ''video.mp4'' payload ''token''"
  have a: "auth_FromRequest sample_env ?good = (Some ?u, None)"
    by (simp add: run_defs)
  have s: "saveFile sample_handler sample_env ?good (ID ?u) sample_world = (Some ?f, None, ?w1)"
    by (simp add: run_defs insert_commute)
  have d: "EvDispatch ''sdk:5279'' sample_sent \<in>
      set (trace (Handle sample_handler sample_env ?good sample_world))"
    by (simp add: run_defs)
  from Handle_dispatch_file_path [OF a s d] d show ?thesis
    by simp
qed

text \<open>
  C3 (the code at the failing input): the disk is full after two bytes of the upload.
  \<open>saveFile\<close> has created the scratch file and returns the copy error without a
  handle; \<open>Handle\<close> writes the internal error and returns before the removal is
  deferred, so \<open>os.Remove\<close> never runs and the partial file is still there.
\<close>

theorem Handle_leaves_partial_file:
  "exit_path (Handle sample_handler disk_full_env (upload ''video.mp4'' payload ''token'') sample_world)
     = SaveFailed \<and>
   written (Handle sample_handler disk_full_env (upload ''video.mp4'' payload ''token'') sample_world)
     = [InternalErrorJSON (ErrMsg ''no space left on device'')] \<and>
   trace (Handle sample_handler disk_full_env (upload ''video.mp4'' payload ''token'') sample_world)
     = [EvSaveFile 42, EvSentry (ErrMsg ''no space left on device'')] \<and>
   files (world_of (Handle sample_handler disk_full_env (upload ''video.mp4'' payload ''token'') sample_world))
     ''/up/42/123_video.mp4'' = Some ''da''"
  by (simp add: run_defs)

text \<open>
  C4 (the code at the failing input): a form post that is not multipart, with a JSON
  payload, has no file part under \<open>file\<close>, and \<open>CanHandle\<close> accepts it:
  \<open>FormFile\<close> fails with \<open>http.ErrNotMultipart\<close>, and the code tests for
  \<open>http.ErrMissingFile\<close> alone. A multipart form without the file part is turned
  away. \<open>Handle\<close> can only answer the accepted request with the internal error of
  \<open>saveFile\<close>.
\<close>

theorem CanHandle_accepts_request_without_file:
  "\<not> has_file_part (urlencoded payload ''token'') fileFieldName \<and>
   CanHandle sample_handler (urlencoded payload ''token'') \<and>
   \<not> CanHandle sample_handler (no_file payload ''token'') \<and>
   Handle sample_handler sample_env (urlencoded payload ''token'') sample_world =
     \<lparr>world_of = sample_world, written = [InternalErrorJSON ErrNotMultipart],
      trace = [EvSaveFile 42, EvSentry ErrNotMultipart], exit_path = SaveFailed\<rparr>"
  by (simp add: run_defs payload_def)

text \<open>
  C5 (as amended): for a request whose \<open>json_payload\<close> does not parse, \<open>Handle\<close>
  never calls \<open>Caller.Call\<close> and sends nothing to a backend; and if the request is
  authenticated, the principal has an SDK address and \<open>saveFile\<close> has returned a
  file, the one body written is the JSON parse error and \<open>Handle\<close> returns there.
\<close>

theorem Handle_malformed_json:
  assumes "json_Unmarshal e (FormValue r jsonRPCFieldName) = (rpcReq, Some perr)"
  shows "EvCall \<notin> set (trace (Handle h e r w)) \<and>
         (\<forall>a q. EvDispatch a q \<notin> set (trace (Handle h e r w))) \<and>
         (auth_FromRequest e r = (Some u, err) \<and> proxy_GetAuthError e (Some u) err = None \<and>
          auth_SDKAddress e (Some u) \<noteq> [] \<and> saveFile h e r (ID u) w = (Some f, None, w1) \<longrightarrow>
            written (Handle h e r w) = [JSONParseErrorJSON perr] \<and>
            exit_path (Handle h e r w) = ParseFailed)"
proof -
  have quiet: "EvCall \<notin> set (trace (Handle h e r w)) \<and>
      (\<forall>a q. EvDispatch a q \<notin> set (trace (Handle h e r w)))"
    by (auto simp: Handle_def serve_parse_failed [OF assms]
        split: prod.splits option.splits dest: cleanup_events)
  have "written (Handle h e r w) = [JSONParseErrorJSON perr] \<and>
      exit_path (Handle h e r w) = ParseFailed"
    if "auth_FromRequest e r = (Some u, err)" "proxy_GetAuthError e (Some u) err = None"
      "auth_SDKAddress e (Some u) \<noteq> []" "saveFile h e r (ID u) w = (Some f, None, w1)"
    using Handle_saved [OF that] serve_parse_failed [OF assms] by simp
  with quiet show ?thesis
    by blast
qed

theorem Handle_malformed_json_witness:
  "json_Unmarshal sample_env (FormValue (upload ''video.mp4'' ''{'' ''token'') jsonRPCFieldName)
     = (None, Some (ErrMsg ''invalid character'')) \<and>
   EvCall \<notin> set (trace (Handle sample_handler sample_env (upload ''video.mp4'' ''{'' ''token'') sample_world)) \<and>
   written (Handle sample_handler sample_env (upload ''video.mp4'' ''{'' ''token'') sample_world)
     = [JSONParseErrorJSON (ErrMsg ''invalid character'')]"
proof -
  let ?f = "File ''/up/42/123_video.mp4''"
  let ?w1 = "\<lparr>files = [''/up/42/123_video.mp4'' \<mapsto> ''data''], dirs = {''/up'', ''/up/42''}, seed = 1\<rparr>"
  let ?u = "\<lparr>ID = 42\<rparr>"
  let ?bad = "upload ''video.mp4'' ''{'' ''token''"
  have j: "json_Unmarshal sample_env (FormValue ?bad jsonRPCFieldName)
      = (None, Some (ErrMsg ''invalid character''))"
    by (simp add: run_defs payload_def)
  have "auth_FromRequest sample_env ?bad = (Some ?u, None)"
    and "proxy_GetAuthError sample_env (Some ?u) None = None"
    and "auth_SDKAddress sample_env (Some ?u) \<noteq> []"
    and "saveFile sample_handler sample_env ?bad (ID ?u) sample_world = (Some ?f, None, ?w1)"
    by (simp_all add: run_defs insert_commute)
  with Handle_malformed_json [OF j, of sample_handler sample_world ?u None ?f ?w1] j
  show ?thesis
    by blast
qed

text \<open>
  The claim as stated promises the parse error for every such request. A request
  without credentials gets the authentication error: the payload is never looked at.
\<close>

theorem Handle_malformed_json_counterexample:
  "json_Unmarshal sample_env (FormValue (upload ''video.mp4'' ''{'' ''anonymous'') jsonRPCFieldName)
     = (None, Some (ErrMsg ''invalid character'')) \<and>
   written (Handle sample_handler sample_env (upload ''video.mp4'' ''{'' ''anonymous'') sample_world)
     = [ErrorToJSON (ErrMsg ''no auth info'')]"
  by (simp add: run_defs payload_def)

text \<open>
  C6: for an authenticated principal whose SDK address is the empty string,
  \<open>Handle\<close> writes the internal error and returns before \<open>saveFile\<close> is called:
  nothing else happens, and the file system, directories included, is as it was.
\<close>

theorem Handle_no_sdk_address:
  assumes "auth_FromRequest e r = (Some u, err)"
    and "proxy_GetAuthError e (Some u) err = None"
    and "auth_SDKAddress e (Some u) = []"
  shows "Handle h e r w =
     \<lparr>world_of = w,
      written = [InternalErrorJSON (ErrMsg ''user does not have sdk address assigned'')],
      trace = [], exit_path = NoSDKAddress\<rparr>"
  using assms by (simp add: Handle_def)

theorem Handle_no_sdk_address_witness:
  "auth_FromRequest sample_env (upload ''video.mp4'' payload ''new'') = (Some \<lparr>ID = 7\<rparr>, None) \<and>
   auth_SDKAddress sample_env (Some \<lparr>ID = 7\<rparr>) = [] \<and>
   Handle sample_handler sample_env (upload ''video.mp4'' payload ''new'') sample_world =
     \<lparr>world_of = sample_world,
      written = [InternalErrorJSON (ErrMsg ''user does not have sdk address assigned'')],
      trace = [], exit_path = NoSDKAddress\<rparr>"
proof -
  have a: "auth_FromRequest sample_env (upload ''video.mp4'' payload ''new'') = (Some \<lparr>ID = 7\<rparr>, None)"
    by (simp add: sample_env_def upload_def)
  have g: "proxy_GetAuthError sample_env (Some \<lparr>ID = 7\<rparr>) None = None"
    by (simp add: sample_env_def)
  have s: "auth_SDKAddress sample_env (Some \<lparr>ID = 7\<rparr>) = []"
    by (simp add: sample_env_def)
  from Handle_no_sdk_address [OF a g s] a s show ?thesis
    by simp
qed

text \<open>
  C7 (as amended): for a request without a file part under \<open>file\<close>, \<open>saveFile\<close> returns
  no handle and the error of the form parser, which is \<open>http.ErrMissingFile\<close> when
  the multipart form parsed and the parser's own error when it did not; it returns
  before \<open>createFile\<close>, so the file system is as it was: no directory is made, no
  file is opened, no random name is drawn.
\<close>

theorem saveFile_without_file_part:
  "\<not> has_file_part r fileFieldName \<Longrightarrow>
     saveFile h e r userID w =
       (None,
        Some (case MultipartForm r of
                NotMultipart \<Rightarrow> ErrNotMultipart
              | Malformed m \<Rightarrow> ErrMsg m
              | Multipart fs \<Rightarrow> ErrMissingFile),
        w)"
  by (auto simp: has_file_part_def saveFile_def FormFile_def split: multipart_form.splits list.splits)

theorem saveFile_without_file_part_witness:
  "\<not> has_file_part (no_file payload ''token'') fileFieldName \<and>
   saveFile sample_handler sample_env (no_file payload ''token'') 42 sample_world
     = (None, Some ErrMissingFile, sample_world)"
proof -
  have h: "\<not> has_file_part (no_file payload ''token'') fileFieldName"
    by (simp add: has_file_part_def no_file_def)
  from saveFile_without_file_part [OF h, of sample_handler sample_env 42 sample_world] h
  show ?thesis
    by (simp add: no_file_def)
qed

text \<open>
  The claim as stated names the missing-file error. A form post that is not multipart has
  no file part either, and there \<open>saveFile\<close> fails with \<open>http.ErrNotMultipart\<close>.
\<close>

theorem saveFile_without_file_part_counterexample:
  "\<not> has_file_part (urlencoded payload ''token'') fileFieldName \<and>
   saveFile sample_handler sample_env (urlencoded payload ''token'') 42 sample_world
     = (None, Some ErrNotMultipart, sample_world)"
  by (simp add: has_file_part_def urlencoded_def saveFile_def FormFile_def)

text \<open>
  C8 (the code at the failing input): the original file name \<open>a*b\<close> holds a star.
  \<open>ioutil.TempFile\<close> puts the random string in place of the last star of the pattern
  \<open>*_a*b\<close>, so the file is \<open>*_a123b\<close> and not \<open>123_a*b\<close>.
\<close>

theorem createFile_star_in_filename:
  "createFile sample_handler sample_env 42 ''a*b'' sample_world =
     (Some (File ''/up/42/*_a123b''), None,
      \<lparr>files = [''/up/42/*_a123b'' \<mapsto> []], dirs = {''/up'', ''/up/42''}, seed = 1\<rparr>)"
  by (simp add: run_defs insert_commute)

text \<open>
  C9 (as amended): a successful \<open>createFile\<close> leaves its file in place, and a second
  successful \<open>createFile\<close> for the same principal and file name returns a different
  path whenever the first file still exists when the second one is created, whatever
  the random source gives: the file is created exclusively, and a name that exists is
  tried again.
\<close>

theorem createFile_distinct_while_first_exists:
  assumes "createFile h e userID origFilename w = (Some f1, err1, w1)"
    and "createFile h e' userID origFilename w2 = (Some f2, err2, w3)"
    and "files w2 (Name f1) \<noteq> None"
  shows "files w1 (Name f1) \<noteq> None \<and> Name f2 \<noteq> Name f1"
proof -
  from createFile_fresh [OF assms(1)] have "files w1 (Name f1) \<noteq> None"
    by simp
  moreover from createFile_fresh [OF assms(2)] have "files w2 (Name f2) = None"
    by simp
  with assms(3) have "Name f2 \<noteq> Name f1"
    by auto
  ultimately show ?thesis
    by simp
qed

theorem createFile_distinct_while_first_exists_witness:
  "createFile sample_handler sample_env 42 ''video.mp4'' sample_world =
     (Some (File ''/up/42/123_video.mp4''), None,
      \<lparr>files = [''/up/42/123_video.mp4'' \<mapsto> []], dirs = {''/up'', ''/up/42''}, seed = 1\<rparr>) \<and>
   createFile sample_handler sample_env 42 ''video.mp4''
      \<lparr>files = [''/up/42/123_video.mp4'' \<mapsto> []], dirs = {''/up'', ''/up/42''}, seed = 0\<rparr> =
     (Some (File ''/up/42/124_video.mp4''), None,
      \<lparr>files = [''/up/42/123_video.mp4'' \<mapsto> [], ''/up/42/124_video.mp4'' \<mapsto> []],
       dirs = {''/up'', ''/up/42''}, seed = 2\<rparr>) \<and>
   Name (File ''/up/42/124_video.mp4'') \<noteq> Name (File ''/up/42/123_video.mp4'')"
proof -
  let ?w1 = "\<lparr>files = [''/up/42/123_video.mp4'' \<mapsto> []], dirs = {''/up'', ''/up/42''}, seed = 1\<rparr>"
  let ?w2 = "\<lparr>files = [''/up/42/123_video.mp4'' \<mapsto> []], dirs = {''/up'', ''/up/42''}, seed = 0\<rparr>"
  let ?w3 = "\<lparr>files = [''/up/42/123_video.mp4'' \<mapsto> [], ''/up/42/124_video.mp4'' \<mapsto> []],
       dirs = {''/up'', ''/up/42''}, seed = 2\<rparr>"
  have a: "createFile sample_handler sample_env 42 ''video.mp4'' sample_world =
      (Some (File ''/up/42/123_video.mp4''), None, ?w1)"
    by (simp add: run_defs insert_commute)
  have b: "createFile sample_handler sample_env 42 ''video.mp4'' ?w2 =
      (Some (File ''/up/42/124_video.mp4''), None, ?w3)"
    by (simp add: run_defs insert_commute)
  have c: "files ?w2 (Name (File ''/up/42/123_video.mp4'')) \<noteq> None"
    by simp
  from createFile_distinct_while_first_exists [OF a b c] a b show ?thesis
    by simp
qed

text \<open>
  The claim as stated fails once the first file is gone, as it is after the request
  that made it: a random source that repeats gives the same path again.
\<close>

theorem createFile_same_path_twice_counterexample:
  "createFile sample_handler repeating_env 42 ''video.mp4'' sample_world =
     (Some (File ''/up/42/123_video.mp4''), None,
      \<lparr>files = [''/up/42/123_video.mp4'' \<mapsto> []], dirs = {''/up'', ''/up/42''}, seed = 1\<rparr>) \<and>
   os_Remove repeating_env ''/up/42/123_video.mp4''
      \<lparr>files = [''/up/42/123_video.mp4'' \<mapsto> []], dirs = {''/up'', ''/up/42''}, seed = 1\<rparr> =
     (None, \<lparr>files = Map.empty, dirs = {''/up'', ''/up/42''}, seed = 1\<rparr>) \<and>
   createFile sample_handler repeating_env 42 ''video.mp4''
      \<lparr>files = Map.empty, dirs = {''/up'', ''/up/42''}, seed = 1\<rparr> =
     (Some (File ''/up/42/123_video.mp4''), None,
      \<lparr>files = [''/up/42/123_video.mp4'' \<mapsto> []], dirs = {''/up'', ''/up/42''}, seed = 2\<rparr>)"
  by (simp add: run_defs insert_commute)

text \<open>
  C10: the two results of \<open>saveFile\<close> exclude each other: with an error the
  file handle is \<open>nil\<close>, and with a file handle the error is \<open>nil\<close>, for every
  request, principal, environment and file system.
\<close>

theorem saveFile_handle_xor_error:
  "saveFile h e r userID w = (f, err, w') \<Longrightarrow>
     (err \<noteq> None \<longrightarrow> f = None) \<and> (f \<noteq> None \<longrightarrow> err = None)"
  by (auto simp: saveFile_def split: sum.splits prod.splits option.splits)

theorem saveFile_handle_xor_error_witness:
  "fst (saveFile sample_handler sample_env (upload ''video.mp4'' payload ''token'') 42 sample_world)
     = Some (File ''/up/42/123_video.mp4'') \<and>
   fst (snd (saveFile sample_handler sample_env (upload ''video.mp4'' payload ''token'') 42 sample_world))
     = None \<and>
   fst (snd (saveFile sample_handler disk_full_env (upload ''video.mp4'' payload ''token'') 42 sample_world))
     = Some (ErrMsg ''no space left on device'') \<and>
   fst (saveFile sample_handler disk_full_env (upload ''video.mp4'' payload ''token'') 42 sample_world)
     = None"
proof -
  let ?ok = "saveFile sample_handler sample_env (upload ''video.mp4'' payload ''token'') 42 sample_world"
  let ?full = "saveFile sample_handler disk_full_env (upload ''video.mp4'' payload ''token'') 42 sample_world"
  have f: "fst ?ok = Some (File ''/up/42/123_video.mp4'')"
    by (simp add: run_defs)
  have e: "fst (snd ?full) = Some (ErrMsg ''no space left on device'')"
    by (simp add: run_defs)
  have "?ok = (fst ?ok, fst (snd ?ok), snd (snd ?ok))"
    by simp
  from saveFile_handle_xor_error [OF this] f have "fst (snd ?ok) = None"
    by simp
  moreover have "?full = (fst ?full, fst (snd ?full), snd (snd ?full))"
    by simp
  from saveFile_handle_xor_error [OF this] e have "fst ?full = None"
    by simp
  ultimately show ?thesis
    using f e by simp
qed

end
